theory Spec2Isabelle
  imports Complex_Main
begin

section \<open>Numbers\<close>

text \<open>
  The Python and SQL code computes with double-precision floats.  The development reads
  every float as a real number: rounding, overflow, infinities and NaN are outside the
  model, and every statement below is about the exact arithmetic the code denotes.
\<close>


section \<open>Geometry and georeferencing, as the libraries provide them\<close>

type_synonym point = "real \<times> real"

text \<open>
  A polygon without holes is its exterior ring: the list of its vertices, the first
  repeated at the end, as shapely stores it.
\<close>

type_synonym polygon = "point list"

text \<open>
  \<^verbatim>\<open>shapely.geometry.box(minx, miny, maxx, maxy)\<close>: the rectangle with these bounds,
  counter-clockwise from the lower right corner.
\<close>

definition box :: "real \<Rightarrow> real \<Rightarrow> real \<Rightarrow> real \<Rightarrow> polygon" where
  "box minx miny maxx maxy =
     [(maxx, miny), (maxx, maxy), (minx, maxy), (minx, miny), (maxx, miny)]"

text \<open>
  The planar area of a polygon (the attribute \<^verbatim>\<open>area\<close>): half the absolute value of
  the sum of the cross products of consecutive vertices of the ring.
\<close>

fun ring_cross_sum :: "point list \<Rightarrow> real" where
  "ring_cross_sum (p # q # ps) = (fst p * snd q - fst q * snd p) + ring_cross_sum (q # ps)"
| "ring_cross_sum [p] = 0"
| "ring_cross_sum [] = 0"

definition area :: "polygon \<Rightarrow> real" where
  "area poly = \<bar>ring_cross_sum poly\<bar> / 2"

text \<open>
  The attribute \<^verbatim>\<open>bounds\<close> of a geometry: \<open>(minx, miny, maxx, maxy)\<close> over its
  vertices.  It is used below to say that a rectangle is well formed; the empty geometry
  has no bounds.
\<close>

fun bounds :: "polygon \<Rightarrow> (real \<times> real \<times> real \<times> real) option" where
  "bounds [] = None"
| "bounds (p # ps) =
     (case bounds ps of
        None \<Rightarrow> Some (fst p, snd p, fst p, snd p)
      | Some (minx, miny, maxx, maxy) \<Rightarrow>
          Some (min (fst p) minx, min (snd p) miny, max (fst p) maxx, max (snd p) maxy))"

text \<open>
  The affine transform of a raster, \<^verbatim>\<open>Affine(a, b, c, d, e, f)\<close>; applied to
  (column, row) it gives the map coordinates \<open>(a * col + b * row + c, d * col + e * row + f)\<close>.
\<close>

datatype affine = Affine real real real real real real

fun affine_apply :: "affine \<Rightarrow> point \<Rightarrow> point" where
  "affine_apply (Affine a b c d e f) (col, row) = (a * col + b * row + c, d * col + e * row + f)"

text \<open>
  \<^verbatim>\<open>rasterio.transform.xy(transform, row, col, offset=...)\<close>: the pixel coordinates are
  shifted by the offset of the chosen place in the pixel, then mapped by the transform.
\<close>

datatype pixel_offset = Center | UL | UR | LL | LR

fun offset_shift :: "pixel_offset \<Rightarrow> real \<times> real" where
  "offset_shift Center = (1 / 2, 1 / 2)"
| "offset_shift UL = (0, 0)"
| "offset_shift UR = (1, 0)"
| "offset_shift LL = (0, 1)"
| "offset_shift LR = (1, 1)"

definition xy :: "affine \<Rightarrow> real \<Rightarrow> real \<Rightarrow> pixel_offset \<Rightarrow> point" where
  "xy transform row col offset =
     (case offset_shift offset of (coff, roff) \<Rightarrow> affine_apply transform (col + coff, row + roff))"

text \<open>
  A coordinate reference system, as far as the code looks at it: its EPSG code, when
  it has one, and its kind, from which pyproj's attributes \<^verbatim>\<open>is_geographic\<close> and
  \<^verbatim>\<open>is_projected\<close> are read.
\<close>

datatype crs_kind = Geographic | Projected | Geocentric | Engineering

record crs =
  epsg_code :: "int option"
  kind :: crs_kind

definition is_geographic :: "crs \<Rightarrow> bool" where
  "is_geographic c = (kind c = Geographic)"

definition is_projected :: "crs \<Rightarrow> bool" where
  "is_projected c = (kind c = Projected)"

text \<open>
  What the geospatial libraries compute and the repository only calls is a parameter of
  the model: the registry lookup \<^verbatim>\<open>CRS.from_epsg\<close>, the coordinate transformation
  between two reference systems (applied by \<^verbatim>\<open>to_crs\<close> to every vertex), the centroid
  of the union of a list of polygons (\<^verbatim>\<open>unary_union.centroid\<close>) and the centroid of one
  polygon.  Failures inside these calls are outside the model.
\<close>

record geo_lib =
  from_epsg :: "int \<Rightarrow> crs"
  transform_point :: "crs \<Rightarrow> crs \<Rightarrow> point \<Rightarrow> point"
  unary_union_centroid :: "polygon list \<Rightarrow> point"
  polygon_centroid :: "polygon \<Rightarrow> point"


section \<open>The drone pipeline (utils/drone_pipeline.py)\<close>

datatype error = MultipleResultsFound | ValueError | CRSError

text \<open>One row of the detector's data frame: a box in pixel coordinates and its metadata.\<close>

record detection =
  xmin :: real
  ymin :: real
  xmax :: real
  ymax :: real
  label :: string
  score :: real

text \<open>A row of the GeoDataFrame \<^verbatim>\<open>crowns\<close>: the detection and its polygon.\<close>

record crown_polygon = detection +
  geometry :: polygon

text \<open>The row once the columns of lines 68 to 70 are added.\<close>

record crown = crown_polygon +
  centroid :: point
  crown_area_m2 :: real
  crown_diameter_m :: real

text \<open>The pixel box of a row of any of these kinds: its four pixel coordinates.\<close>

definition pixel_box :: "'a detection_scheme \<Rightarrow> real \<times> real \<times> real \<times> real" where
  "pixel_box r = (xmin r, ymin r, xmax r, ymax r)"

text \<open>A GeoDataFrame: its rows in order and its reference system, which may be unset.\<close>

record 'r gdf =
  rows :: "'r list"
  gdf_crs :: "crs option"

record drone_detection_result =
  crowns_gdf :: "crown gdf"
  source_crs :: crs

text \<open>
  The body of the loop over the detections (lines 52 to 57): the two diagonal pixel
  corners are mapped at the upper left of the pixel, and the polygon is the box of the
  minima and maxima of the two map points.
\<close>

definition pixel_box_to_polygon :: "affine \<Rightarrow> detection \<Rightarrow> polygon" where
  "pixel_box_to_polygon transform row =
     (case xy transform (ymin row) (xmin row) UL of (x1, y1) \<Rightarrow>
      case xy transform (ymax row) (xmax row) UL of (x2, y2) \<Rightarrow>
        box (min x1 x2) (min y1 y2) (max x1 x2) (max y1 y2))"

text \<open>The loop itself: \<open>polygons\<close> is the list built so far.\<close>

fun polygons_loop :: "affine \<Rightarrow> detection list \<Rightarrow> polygon list \<Rightarrow> polygon list" where
  "polygons_loop transform [] polygons = polygons"
| "polygons_loop transform (row # remaining) polygons =
     polygons_loop transform remaining (polygons @ [pixel_box_to_polygon transform row])"

text \<open>
  \<^verbatim>\<open>gpd.GeoDataFrame(detections_df.copy(), geometry=polygons, crs=crs)\<close>: each row of
  the data frame gets the polygon at its position.
\<close>

definition with_geometry :: "detection \<Rightarrow> polygon \<Rightarrow> crown_polygon" where
  "with_geometry row poly =
     \<lparr>xmin = xmin row, ymin = ymin row, xmax = xmax row, ymax = ymax row,
      label = label row, score = score row, geometry = poly\<rparr>"

definition GeoDataFrame :: "detection list \<Rightarrow> polygon list \<Rightarrow> crs option \<Rightarrow> crown_polygon gdf" where
  "GeoDataFrame df polygons c = \<lparr>rows = map2 with_geometry df polygons, gdf_crs = c\<rparr>"

text \<open>
  \<^verbatim>\<open>GeoDataFrame.to_crs(epsg=code)\<close>: a frame without a reference system raises
  \<^verbatim>\<open>ValueError\<close>; otherwise every vertex of every geometry is transformed into the
  system the registry gives for the code, which the result carries.  (The library returns
  the frame itself when the two systems are the same; the transformation is then the
  identity, and the model does not single the case out.)
\<close>

definition to_crs :: "geo_lib \<Rightarrow> int \<Rightarrow> crown_polygon gdf \<Rightarrow> error + crown_polygon gdf" where
  "to_crs lib epsg df =
     (case gdf_crs df of
        None \<Rightarrow> Inl ValueError
      | Some src \<Rightarrow>
          Inr \<lparr>rows = map (\<lambda>r. r\<lparr>geometry := map (transform_point lib src (from_epsg lib epsg)) (geometry r)\<rparr>)
                       (rows df),
               gdf_crs = Some (from_epsg lib epsg)\<rparr>)"

text \<open>
  Python's floor division of floats, \<^verbatim>\<open>a // b\<close> (the divisor is the constant 6 at its
  only use), and \<^verbatim>\<open>int(x)\<close>, which truncates towards zero.
\<close>

definition py_floordiv :: "real \<Rightarrow> real \<Rightarrow> real" where
  "py_floordiv a b = of_int \<lfloor>a / b\<rfloor>"

definition py_int :: "real \<Rightarrow> int" where
  "py_int x = (if 0 \<le> x then \<lfloor>x\<rfloor> else \<lceil>x\<rceil>)"

definition utm_zone_of :: "point \<Rightarrow> int" where
  "utm_zone_of centroid_pt = py_int (py_floordiv (fst centroid_pt + 180) 6) + 1"

definition utm_epsg_of :: "point \<Rightarrow> int" where
  "utm_epsg_of centroid_pt =
     (if 0 \<le> snd centroid_pt then 32600 + utm_zone_of centroid_pt
      else 32700 + utm_zone_of centroid_pt)"

text \<open>
  Lines 62 to 66, ``ensure metric units'':
  \<^verbatim>\<open>if crowns.crs and crowns.crs.is_geographic: ... crowns = crowns.to_crs(epsg=utm_epsg)\<close>.
  A CRS object is always truthy, so the first conjunct tests for \<^verbatim>\<open>None\<close>.
\<close>

definition ensure_metric :: "geo_lib \<Rightarrow> crown_polygon gdf \<Rightarrow> error + crown_polygon gdf" where
  "ensure_metric lib crowns =
     (case gdf_crs crowns of
        None \<Rightarrow> Inr crowns
      | Some c \<Rightarrow>
          if is_geographic c
          then to_crs lib (utm_epsg_of (unary_union_centroid lib (map geometry (rows crowns)))) crowns
          else Inr crowns)"

text \<open>
  Lines 68 to 70: the columns \<^verbatim>\<open>centroid\<close>, \<^verbatim>\<open>crown_area_m2\<close> and
  \<^verbatim>\<open>crown_diameter_m\<close>; the diameter is computed from the area column.
\<close>

definition derive_row :: "geo_lib \<Rightarrow> crown_polygon \<Rightarrow> crown" where
  "derive_row lib r =
     \<lparr>xmin = xmin r, ymin = ymin r, xmax = xmax r, ymax = ymax r,
      label = label r, score = score r, geometry = geometry r,
      centroid = polygon_centroid lib (geometry r),
      crown_area_m2 = area (geometry r),
      crown_diameter_m = 2 * sqrt (area (geometry r) / pi)\<rparr>"

definition derive :: "geo_lib \<Rightarrow> crown_polygon gdf \<Rightarrow> crown gdf" where
  "derive lib crowns = \<lparr>rows = map (derive_row lib) (rows crowns), gdf_crs = gdf_crs crowns\<rparr>"

text \<open>
  Line 42, \<^verbatim>\<open>CRS.from_user_input(src.crs)\<close>: the reference system of the raster as a
  pyproj CRS.  A raster without a reference system has \<^verbatim>\<open>src.crs\<close> unset (\<open>None\<close>
  here), and pyproj raises \<^verbatim>\<open>CRSError\<close> for it.
\<close>

definition from_user_input :: "crs option \<Rightarrow> error + crs" where
  "from_user_input src_crs = (case src_crs of None \<Rightarrow> Inl CRSError | Some c \<Rightarrow> Inr c)"

text \<open>
  \<^verbatim>\<open>detect_tree_crowns_from_orthomosaic\<close>, from what lines 40 to 45 obtain from the
  libraries: the transform of the raster and its reference system, if it has one, and
  the detector's data frame (\<open>None\<close> when the detector returns \<^verbatim>\<open>None\<close>).  The
  reference system is read first, so a raster without one ends the run there.  With no
  detection the function returns the empty frame at once, in the raster's reference
  system.  The frame built at line 59 always carries the reference system of line 42.
\<close>

definition detect_tree_crowns_from_orthomosaic ::
    "geo_lib \<Rightarrow> affine \<Rightarrow> crs option \<Rightarrow> detection list option \<Rightarrow> error + drone_detection_result" where
  "detect_tree_crowns_from_orthomosaic lib transform src_crs detections_df =
     (case from_user_input src_crs of
        Inl e \<Rightarrow> Inl e
      | Inr c \<Rightarrow>
          (case detections_df of
             None \<Rightarrow> Inr \<lparr>crowns_gdf = \<lparr>rows = [], gdf_crs = Some c\<rparr>, source_crs = c\<rparr>
           | Some df \<Rightarrow>
               if df = [] then Inr \<lparr>crowns_gdf = \<lparr>rows = [], gdf_crs = Some c\<rparr>, source_crs = c\<rparr>
               else
                 (case ensure_metric lib (GeoDataFrame df (polygons_loop transform df []) (Some c)) of
                    Inl e \<Rightarrow> Inl e
                  | Inr crowns \<Rightarrow> Inr \<lparr>crowns_gdf = derive lib crowns, source_crs = c\<rparr>)))"


section \<open>The allometric reference table (models/database.py)\<close>

text \<open>
  One row of the table \<^verbatim>\<open>allometric_reference\<close>.  The primary key column \<^verbatim>\<open>id\<close>
  is named \<open>id_pk\<close> here, since \<open>id\<close> is the identity function of HOL.
\<close>

record allometric_reference =
  id_pk :: nat
  crown_diameter_m :: real
  height_m :: real
  carbon_tonnes :: real

text \<open>
  The state of the database is the content of the table, as the list of its rows in the
  order of insertion (the order of the integer primary key).
\<close>

type_synonym reference_table = "allometric_reference list"

definition sample_rows :: "allometric_reference list" where
  "sample_rows =
     [\<lparr>id_pk = 1, crown_diameter_m = 2, height_m = 4, carbon_tonnes = 3 / 100\<rparr>,
      \<lparr>id_pk = 2, crown_diameter_m = 4, height_m = 8, carbon_tonnes = 12 / 100\<rparr>,
      \<lparr>id_pk = 3, crown_diameter_m = 6, height_m = 12, carbon_tonnes = 35 / 100\<rparr>,
      \<lparr>id_pk = 4, crown_diameter_m = 8, height_m = 16, carbon_tonnes = 75 / 100\<rparr>]"

text \<open>
  \<^verbatim>\<open>DatabaseManager.seed_defaults\<close>: when the table already holds a row the method
  returns at once; otherwise the four sample rows are added and committed.  On the empty
  table the integer primary key numbers them 1 to 4.
\<close>

definition seed_defaults :: "reference_table \<Rightarrow> reference_table" where
  "seed_defaults tbl = (if tbl \<noteq> [] then tbl else tbl @ sample_rows)"


section \<open>The nearest-neighbour estimator (models/calculator.py)\<close>

text \<open>
  The SQL expression
  \<^verbatim>\<open>pow(crown_diameter_m - :d, 2) + pow(height_m - :h, 2)\<close>, evaluated on one row.
\<close>

definition distance_expr :: "real \<Rightarrow> real \<Rightarrow> allometric_reference \<Rightarrow> real" where
  "distance_expr d h ref = (crown_diameter_m ref - d)\<^sup>2 + (height_m ref - h)\<^sup>2"

text \<open>
  \<^verbatim>\<open>ORDER BY expr ASC\<close>.  SQL leaves the order of rows with equal keys open; the model
  keeps them in table order (a stable sort), which is what a scan in primary-key order
  followed by a stable sorter yields.
\<close>

definition order_by_asc :: "('a \<Rightarrow> real) \<Rightarrow> 'a list \<Rightarrow> 'a list" where
  "order_by_asc key_expr result = sort_key key_expr result"

definition limit :: "nat \<Rightarrow> 'a list \<Rightarrow> 'a list" where
  "limit n result = take n result"

text \<open>
  \<^verbatim>\<open>Result.scalar_one_or_none()\<close>: no row gives \<^verbatim>\<open>None\<close>, one row gives the row,
  more than one row raises \<^verbatim>\<open>MultipleResultsFound\<close>.
\<close>

fun scalar_one_or_none :: "'a list \<Rightarrow> error + 'a option" where
  "scalar_one_or_none [] = Inr None"
| "scalar_one_or_none [row] = Inr (Some row)"
| "scalar_one_or_none (row # other # rest) = Inl MultipleResultsFound"

text \<open>
  \<^verbatim>\<open>Calculator.estimate_carbon_tonnes\<close>.  An ORM row object is always truthy, so
  \<^verbatim>\<open>float(row.carbon_tonnes) if row else 0.0\<close> tests for \<^verbatim>\<open>None\<close> only.
\<close>

definition estimate_carbon_tonnes :: "reference_table \<Rightarrow> real \<Rightarrow> real \<Rightarrow> error + real" where
  "estimate_carbon_tonnes tbl d h =
     (case scalar_one_or_none (limit 1 (order_by_asc (distance_expr d h) tbl)) of
        Inl e \<Rightarrow> Inl e
      | Inr None \<Rightarrow> Inr 0
      | Inr (Some row) \<Rightarrow> Inr (carbon_tonnes row))"


section \<open>The caller of the estimator (app.py)\<close>

text \<open>
  Python's \<^verbatim>\<open>x or default\<close> on an optional float: \<^verbatim>\<open>None\<close> and \<^verbatim>\<open>0.0\<close> are
  falsy, every other number is truthy.
\<close>

definition py_or :: "real option \<Rightarrow> real \<Rightarrow> real" where
  "py_or x dflt = (case x of None \<Rightarrow> dflt | Some v \<Rightarrow> if v = 0 then dflt else v)"

text \<open>
  The function applied to each row in \<^verbatim>\<open>drone_upload_page\<close>:
  \<^verbatim>\<open>lambda r: calc.estimate_carbon_tonnes(r["crown_diameter_m"], r.get("max_height_m") or 10.0)\<close>.
  The second argument is what \<^verbatim>\<open>r.get("max_height_m")\<close> returns: \<open>None\<close> when the row
  has no such column or holds \<^verbatim>\<open>None\<close> there.
\<close>

definition est_carbon_t :: "reference_table \<Rightarrow> real \<Rightarrow> real option \<Rightarrow> error + real" where
  "est_carbon_t tbl diameter max_height_m =
     estimate_carbon_tonnes tbl diameter (py_or max_height_m 10)"


section \<open>Example inputs\<close>

text \<open>
  A stand-in for the libraries, used only to evaluate the model on concrete inputs: the
  registry returns a projected system carrying the code asked for, the coordinate
  transformation shifts every point by (1000, 2000), and the centroid of a polygon is the
  centre of its bounds, which is its centroid when it is a rectangle.  The centroid of a
  union is taken from the first polygon: the examples use batches of one rectangle.
\<close>

definition bounds_centre :: "polygon \<Rightarrow> point" where
  "bounds_centre poly =
     (case bounds poly of
        None \<Rightarrow> (0, 0)
      | Some (minx, miny, maxx, maxy) \<Rightarrow> ((minx + maxx) / 2, (miny + maxy) / 2))"

definition example_lib :: geo_lib where
  "example_lib =
     \<lparr>from_epsg = (\<lambda>code. \<lparr>epsg_code = Some code, kind = Projected\<rparr>),
      transform_point = (\<lambda>src dst p. (fst p + 1000, snd p + 2000)),
      unary_union_centroid = (\<lambda>polys. case polys of [] \<Rightarrow> (0, 0) | poly # _ \<Rightarrow> bounds_centre poly),
      polygon_centroid = bounds_centre\<rparr>"

definition wgs84 :: crs where
  "wgs84 = \<lparr>epsg_code = Some 4326, kind = Geographic\<rparr>"

definition utm10n :: crs where
  "utm10n = \<lparr>epsg_code = Some 32610, kind = Projected\<rparr>"

text \<open>A north-up raster: 0.1 m pixels, the row-to-y scale negative.\<close>

definition north_up :: affine where
  "north_up = Affine (1 / 10) 0 500000 0 (- 1 / 10) 5450000"

definition tree_box :: detection where
  "tree_box = \<lparr>xmin = 10, ymin = 20, xmax = 30, ymax = 50, label = ''Tree'', score = 1 / 2\<rparr>"

text \<open>A north-up raster in degrees: pixels of 0.001 degree, upper left at (-123.2, 49.3).\<close>

definition degree_raster :: affine where
  "degree_raster = Affine (1 / 1000) 0 (- 1232 / 10) 0 (- 1 / 1000) (493 / 10)"

text \<open>A box of 100 by 100 pixels at the origin of the raster: 10 m by 10 m on the ground.\<close>

definition square_box :: detection where
  "square_box = \<lparr>xmin = 0, ymin = 0, xmax = 100, ymax = 100, label = ''Tree'', score = 9 / 10\<rparr>"

text \<open>A malformed detection: \<open>xmin\<close> is greater than \<open>xmax\<close>.\<close>

definition bad_box :: detection where
  "bad_box = \<lparr>xmin = 30, ymin = 20, xmax = 10, ymax = 50, label = ''Tree'', score = 1 / 2\<rparr>"

text \<open>Frames of one crown: in degrees around Vancouver, and a 10 m square in metres.\<close>

definition vancouver_crowns :: "crs option \<Rightarrow> crown_polygon gdf" where
  "vancouver_crowns c = GeoDataFrame [tree_box] [box (- 1232 / 10) (491 / 10) (- 1230 / 10) (493 / 10)] c"

definition square_crowns :: "crs option \<Rightarrow> crown_polygon gdf" where
  "square_crowns c = GeoDataFrame [square_box] [box 500000 5449990 500010 5450000] c"


section \<open>Properties of the estimator\<close>

lemma sort_key_nonempty_head:
  assumes "xs \<noteq> []"
  shows "\<exists>y ys. sort_key f xs = y # ys \<and> y \<in> set xs \<and> (\<forall>z \<in> set xs. f y \<le> f z)"
proof -
  have "sort_key f xs \<noteq> []"
    using assms by (metis length_sort length_0_conv)
  then obtain y ys where eq: "sort_key f xs = y # ys"
    by (cases "sort_key f xs") auto
  have mem: "y \<in> set xs"
    by (metis eq list.set_intros(1) set_sort)
  have srt: "sorted (map f (y # ys))"
    using sorted_sort_key [of f xs] by (simp add: eq)
  have "f y \<le> f z" if "z \<in> set xs" for z
  proof -
    from that have "z \<in> set (y # ys)"
      by (metis eq set_sort)
    with srt show ?thesis by auto
  qed
  with eq mem show ?thesis by blast
qed

lemma estimate_nonempty:
  assumes "tbl \<noteq> []"
  shows "\<exists>row \<in> set tbl.
           estimate_carbon_tonnes tbl d h = Inr (carbon_tonnes row) \<and>
           (\<forall>other \<in> set tbl. distance_expr d h row \<le> distance_expr d h other)"
proof -
  obtain y ys where eq: "sort_key (distance_expr d h) tbl = y # ys"
    and mem: "y \<in> set tbl"
    and le: "\<forall>z \<in> set tbl. distance_expr d h y \<le> distance_expr d h z"
    using sort_key_nonempty_head [OF assms, of "distance_expr d h"] by blast
  have "estimate_carbon_tonnes tbl d h = Inr (carbon_tonnes y)"
    by (simp add: estimate_carbon_tonnes_def order_by_asc_def limit_def eq)
  with mem le show ?thesis by blast
qed

lemma estimate_never_raises: "\<not> isl (estimate_carbon_tonnes tbl d h)"
proof (cases "tbl = []")
  case True
  then show ?thesis
    by (simp add: estimate_carbon_tonnes_def order_by_asc_def limit_def)
next
  case False
  then show ?thesis
    using estimate_nonempty [of tbl d h] by auto
qed

text \<open>
  C1.  On a non-empty table the estimator returns (without raising) the
  \<open>carbon_tonnes\<close> of a row of the table whose squared Euclidean distance to the query,
  \<open>(ref.crown_diameter_m - d)\<^sup>2 + (ref.height_m - h)\<^sup>2\<close>, is least among all rows.
\<close>

theorem estimate_returns_nearest:
  assumes "tbl \<noteq> []"
  shows "\<exists>row \<in> set tbl.
           estimate_carbon_tonnes tbl d h = Inr (carbon_tonnes row) \<and>
           (\<forall>other \<in> set tbl.
              (crown_diameter_m row - d)\<^sup>2 + (height_m row - h)\<^sup>2
                \<le> (crown_diameter_m other - d)\<^sup>2 + (height_m other - h)\<^sup>2)"
  using estimate_nonempty [OF assms, of d h]
  unfolding distance_expr_def by blast

text \<open>
  The theorem at the seeded table and the query (7, 15); there the nearest row is
  (8, 16), with carbon 0.75.
\<close>

theorem estimate_returns_nearest_witness:
  "seed_defaults [] \<noteq> [] \<and>
   (\<exists>row \<in> set (seed_defaults []).
      estimate_carbon_tonnes (seed_defaults []) 7 15 = Inr (carbon_tonnes row) \<and>
      (\<forall>other \<in> set (seed_defaults []).
         (crown_diameter_m row - 7)\<^sup>2 + (height_m row - 15)\<^sup>2
           \<le> (crown_diameter_m other - 7)\<^sup>2 + (height_m other - 15)\<^sup>2)) \<and>
   estimate_carbon_tonnes (seed_defaults []) 7 15 = Inr (75 / 100)"
proof -
  have ne: "seed_defaults [] \<noteq> []"
    by (simp add: seed_defaults_def sample_rows_def)
  have val: "estimate_carbon_tonnes (seed_defaults []) 7 15 = Inr (75 / 100)"
    by (simp add: estimate_carbon_tonnes_def order_by_asc_def limit_def seed_defaults_def
        sample_rows_def distance_expr_def)
  from ne val estimate_returns_nearest [OF ne, of 7 15] show ?thesis
    by blast
qed

text \<open>
  C6.  On the empty table the estimator returns 0.0 for every query; it does not raise.
\<close>

theorem estimate_empty_store: "estimate_carbon_tonnes [] d h = Inr 0"
  by (simp add: estimate_carbon_tonnes_def order_by_asc_def limit_def)

text \<open>
  C8, as the claim states its reason: at the query (5, 10) the row (4, 8) would be
  strictly nearer than every other row.  It is not: the rows (4, 8) and (6, 12) of the
  seeded table are both at squared distance 5.
\<close>

theorem seed_rows_tie_counterexample:
  "seed_defaults [] ! 1 = \<lparr>id_pk = 2, crown_diameter_m = 4, height_m = 8, carbon_tonnes = 12 / 100\<rparr> \<and>
   seed_defaults [] ! 2 = \<lparr>id_pk = 3, crown_diameter_m = 6, height_m = 12, carbon_tonnes = 35 / 100\<rparr> \<and>
   distance_expr 5 10 (seed_defaults [] ! 1) = 5 \<and>
   distance_expr 5 10 (seed_defaults [] ! 2) = 5 \<and>
   \<not> distance_expr 5 10 (seed_defaults [] ! 1) < distance_expr 5 10 (seed_defaults [] ! 2)"
  by (simp add: seed_defaults_def sample_rows_def distance_expr_def)

text \<open>
  C8, amended.  Against the seeded table, the query (4, 8) returns exactly 0.12: the row
  (4, 8) is at distance 0 and the others at 20, 20 and 80.  At the query (5, 10) the
  squared distances are 45, 5, 5 and 45: the rows (4, 8) and (6, 12) tie for the least
  distance, and the estimator returns the carbon of the first of them in table order,
  0.12.
\<close>

theorem estimate_on_seed_table:
  "estimate_carbon_tonnes (seed_defaults []) 4 8 = Inr (12 / 100) \<and>
   map (distance_expr 4 8) (seed_defaults []) = [20, 0, 20, 80] \<and>
   map (distance_expr 5 10) (seed_defaults []) = [45, 5, 5, 45] \<and>
   map carbon_tonnes (seed_defaults []) = [3 / 100, 12 / 100, 35 / 100, 75 / 100] \<and>
   estimate_carbon_tonnes (seed_defaults []) 5 10 = Inr (12 / 100)"
  by (simp add: estimate_carbon_tonnes_def order_by_asc_def limit_def seed_defaults_def
      sample_rows_def distance_expr_def)

text \<open>
  C10.  At the caller, a recorded height of exactly 0.0 is replaced by the default 10.0
  just as a missing height is: both crowns get the estimate for height 10.0.
\<close>

theorem zero_height_defaults_to_ten:
  "py_or (Some 0) 10 = 10 \<and> py_or None 10 = 10 \<and>
   est_carbon_t tbl diameter (Some 0) = est_carbon_t tbl diameter None \<and>
   est_carbon_t tbl diameter (Some 0) = estimate_carbon_tonnes tbl diameter 10"
  by (simp add: est_carbon_t_def py_or_def)


section \<open>Properties of the pixel-to-map transformation\<close>

lemma detect_without_crs:
  "detect_tree_crowns_from_orthomosaic lib transform None detections_df = Inl CRSError"
  by (simp add: detect_tree_crowns_from_orthomosaic_def from_user_input_def)

lemma detect_with_crs:
  "detect_tree_crowns_from_orthomosaic lib transform (Some c) detections_df =
     (case detections_df of
        None \<Rightarrow> Inr \<lparr>crowns_gdf = \<lparr>rows = [], gdf_crs = Some c\<rparr>, source_crs = c\<rparr>
      | Some df \<Rightarrow>
          if df = [] then Inr \<lparr>crowns_gdf = \<lparr>rows = [], gdf_crs = Some c\<rparr>, source_crs = c\<rparr>
          else
            (case ensure_metric lib (GeoDataFrame df (polygons_loop transform df []) (Some c)) of
               Inl e \<Rightarrow> Inl e
             | Inr crowns \<Rightarrow> Inr \<lparr>crowns_gdf = derive lib crowns, source_crs = c\<rparr>))"
  by (simp add: detect_tree_crowns_from_orthomosaic_def from_user_input_def)

lemma detect_success_has_crs:
  assumes "detect_tree_crowns_from_orthomosaic lib transform src_crs detections_df = Inr res"
  shows "\<exists>c. src_crs = Some c"
  using assms by (cases src_crs) (simp_all add: detect_without_crs)

lemma polygons_loop_append:
  "polygons_loop transform df polygons = polygons @ map (pixel_box_to_polygon transform) df"
  by (induction df arbitrary: polygons) simp_all

lemma polygons_loop_map:
  "polygons_loop transform df [] = map (pixel_box_to_polygon transform) df"
  by (simp add: polygons_loop_append)

lemma xy_UL: "xy transform row col UL = affine_apply transform (col, row)"
  by (simp add: xy_def)

lemma bounds_box:
  assumes "minx \<le> maxx" and "miny \<le> maxy"
  shows "bounds (box minx miny maxx maxy) = Some (minx, miny, maxx, maxy)"
  using assms by (simp add: box_def)

lemma GeoDataFrame_map:
  "GeoDataFrame df (map g df) c = \<lparr>rows = map (\<lambda>d. with_geometry d (g d)) df, gdf_crs = c\<rparr>"
proof -
  have "map2 with_geometry df (map g df) = map (\<lambda>d. with_geometry d (g d)) df"
    by (induction df) simp_all
  then show ?thesis by (simp add: GeoDataFrame_def)
qed

lemma ensure_metric_frame:
  "ensure_metric lib \<lparr>rows = rs, gdf_crs = Some c\<rparr> =
     Inr (if is_geographic c
          then \<lparr>rows = map (\<lambda>r. r\<lparr>geometry :=
                    map (transform_point lib c
                          (from_epsg lib (utm_epsg_of (unary_union_centroid lib (map geometry rs)))))
                      (geometry r)\<rparr>) rs,
               gdf_crs = Some (from_epsg lib (utm_epsg_of (unary_union_centroid lib (map geometry rs))))\<rparr>
          else \<lparr>rows = rs, gdf_crs = Some c\<rparr>)"
  by (simp add: ensure_metric_def to_crs_def)

lemma detect_frame:
  assumes "df \<noteq> []"
  shows "detect_tree_crowns_from_orthomosaic lib transform (Some c) (Some df) =
     Inr \<lparr>crowns_gdf = derive lib
            (if is_geographic c
             then \<lparr>rows = map (\<lambda>d. with_geometry d
                       (map (transform_point lib c
                               (from_epsg lib (utm_epsg_of (unary_union_centroid lib
                                  (map (pixel_box_to_polygon transform) df)))))
                          (pixel_box_to_polygon transform d))) df,
                  gdf_crs = Some (from_epsg lib (utm_epsg_of (unary_union_centroid lib
                                  (map (pixel_box_to_polygon transform) df))))\<rparr>
             else \<lparr>rows = map (\<lambda>d. with_geometry d (pixel_box_to_polygon transform d)) df,
                   gdf_crs = Some c\<rparr>),
          source_crs = c\<rparr>"
proof -
  have geo: "map geometry (map (\<lambda>d. with_geometry d (pixel_box_to_polygon transform d)) df)
      = map (pixel_box_to_polygon transform) df"
    by (simp add: with_geometry_def o_def)
  show ?thesis
    using assms
    by (simp add: detect_with_crs polygons_loop_map GeoDataFrame_map ensure_metric_frame geo
        with_geometry_def o_def)
qed

text \<open>
  C4.  For a box of the batch with \<open>xmin < xmax\<close> and \<open>ymin < ymax\<close> and any affine
  transform, the two map points are the transform applied to the pixel corners
  (xmin, ymin) and (xmax, ymax) themselves (upper left of the pixel, no half-pixel
  shift), and the polygon the transformer puts out for the box, at its position in the
  list the loop builds and in the frame of line 59, is the rectangle of the minima and
  maxima of their coordinates; its bounds are these four numbers in the right order,
  whatever the signs of the transform's scales.  The function returns one crown per box;
  the polygon of the box is this rectangle when the raster's reference system is not
  geographic, and this rectangle with every vertex reprojected when it is.
\<close>

theorem pixel_box_to_polygon_rectangle:
  assumes "i < length df"
    and "xmin (df ! i) < xmax (df ! i)" and "ymin (df ! i) < ymax (df ! i)"
    and "affine_apply transform (xmin (df ! i), ymin (df ! i)) = (x1, y1)"
    and "affine_apply transform (xmax (df ! i), ymax (df ! i)) = (x2, y2)"
  shows "xy transform (ymin (df ! i)) (xmin (df ! i)) UL = (x1, y1) \<and>
         xy transform (ymax (df ! i)) (xmax (df ! i)) UL = (x2, y2) \<and>
         pixel_box_to_polygon transform (df ! i)
           = box (min x1 x2) (min y1 y2) (max x1 x2) (max y1 y2) \<and>
         bounds (pixel_box_to_polygon transform (df ! i))
           = Some (min x1 x2, min y1 y2, max x1 x2, max y1 y2) \<and>
         length (polygons_loop transform df []) = length df \<and>
         polygons_loop transform df [] ! i = box (min x1 x2) (min y1 y2) (max x1 x2) (max y1 y2) \<and>
         length (rows (GeoDataFrame df (polygons_loop transform df []) (Some c))) = length df \<and>
         geometry (rows (GeoDataFrame df (polygons_loop transform df []) (Some c)) ! i)
           = box (min x1 x2) (min y1 y2) (max x1 x2) (max y1 y2) \<and>
         (\<exists>res. detect_tree_crowns_from_orthomosaic lib transform (Some c) (Some df) = Inr res \<and>
            length (rows (crowns_gdf res)) = length df \<and>
            pixel_box (rows (crowns_gdf res) ! i) = pixel_box (df ! i) \<and>
            geometry (rows (crowns_gdf res) ! i) =
              (if is_geographic c
               then map (transform_point lib c
                          (from_epsg lib (utm_epsg_of (unary_union_centroid lib
                             (polygons_loop transform df [])))))
                      (box (min x1 x2) (min y1 y2) (max x1 x2) (max y1 y2))
               else box (min x1 x2) (min y1 y2) (max x1 x2) (max y1 y2)))"
proof -
  let ?rect = "box (min x1 x2) (min y1 y2) (max x1 x2) (max y1 y2)"
  have c1: "xy transform (ymin (df ! i)) (xmin (df ! i)) UL = (x1, y1)"
    using assms(4) by (simp add: xy_UL)
  have c2: "xy transform (ymax (df ! i)) (xmax (df ! i)) UL = (x2, y2)"
    using assms(5) by (simp add: xy_UL)
  have poly: "pixel_box_to_polygon transform (df ! i) = ?rect"
    by (simp add: pixel_box_to_polygon_def c1 c2)
  have bnd: "bounds (pixel_box_to_polygon transform (df ! i))
      = Some (min x1 x2, min y1 y2, max x1 x2, max y1 y2)"
    unfolding poly by (rule bounds_box) simp_all
  have len: "length (polygons_loop transform df []) = length df"
    by (simp add: polygons_loop_map)
  have nth: "polygons_loop transform df [] ! i = ?rect"
    using assms(1) by (simp add: polygons_loop_map poly)
  have flen: "length (rows (GeoDataFrame df (polygons_loop transform df []) (Some c))) = length df"
    by (simp add: polygons_loop_map GeoDataFrame_map)
  have fnth: "geometry (rows (GeoDataFrame df (polygons_loop transform df []) (Some c)) ! i) = ?rect"
    using assms(1) by (simp add: polygons_loop_map GeoDataFrame_map with_geometry_def poly)
  have ne: "df \<noteq> []"
    using assms(1) by auto
  let ?res = "\<lparr>crowns_gdf = derive lib
            (if is_geographic c
             then \<lparr>rows = map (\<lambda>d. with_geometry d
                       (map (transform_point lib c
                               (from_epsg lib (utm_epsg_of (unary_union_centroid lib
                                  (map (pixel_box_to_polygon transform) df)))))
                          (pixel_box_to_polygon transform d))) df,
                  gdf_crs = Some (from_epsg lib (utm_epsg_of (unary_union_centroid lib
                                  (map (pixel_box_to_polygon transform) df))))\<rparr>
             else \<lparr>rows = map (\<lambda>d. with_geometry d (pixel_box_to_polygon transform d)) df,
                   gdf_crs = Some c\<rparr>),
          source_crs = c\<rparr>"
  have run: "detect_tree_crowns_from_orthomosaic lib transform (Some c) (Some df) = Inr ?res"
    using ne by (rule detect_frame)
  have rlen: "length (rows (crowns_gdf ?res)) = length df"
    by (simp add: derive_def)
  have rbox: "pixel_box (rows (crowns_gdf ?res) ! i) = pixel_box (df ! i)"
    using assms(1) by (simp add: derive_def derive_row_def with_geometry_def pixel_box_def)
  have rgeo: "geometry (rows (crowns_gdf ?res) ! i) =
      (if is_geographic c
       then map (transform_point lib c
                  (from_epsg lib (utm_epsg_of (unary_union_centroid lib
                     (polygons_loop transform df [])))))
              ?rect
       else ?rect)"
    using assms(1)
    by (simp add: derive_def derive_row_def with_geometry_def polygons_loop_map poly)
  from run rlen rbox rgeo
  have out: "\<exists>res. detect_tree_crowns_from_orthomosaic lib transform (Some c) (Some df) = Inr res \<and>
      length (rows (crowns_gdf res)) = length df \<and>
      pixel_box (rows (crowns_gdf res) ! i) = pixel_box (df ! i) \<and>
      geometry (rows (crowns_gdf res) ! i) =
        (if is_geographic c
         then map (transform_point lib c
                    (from_epsg lib (utm_epsg_of (unary_union_centroid lib
                       (polygons_loop transform df [])))))
                ?rect
         else ?rect)"
    by blast
  from c1 c2 poly bnd len nth flen fnth out show ?thesis
    by blast
qed

text \<open>
  The theorem on a north-up raster in metres (row-to-y scale -0.1), for the second box
  of a batch of two: the corner (10, 20) maps to (500001, 5449998) and the corner
  (30, 50) to (500003, 5449995), below it.  And on a raster in degrees, where the
  rectangle comes out reprojected into the system of code 32610.
\<close>

theorem pixel_box_to_polygon_rectangle_witness:
  "(1::nat) < length [bad_box, tree_box] \<and>
   xmin ([bad_box, tree_box] ! 1) < xmax ([bad_box, tree_box] ! 1) \<and>
   ymin ([bad_box, tree_box] ! 1) < ymax ([bad_box, tree_box] ! 1) \<and>
   affine_apply north_up (xmin ([bad_box, tree_box] ! 1), ymin ([bad_box, tree_box] ! 1))
     = (500001, 5449998) \<and>
   affine_apply north_up (xmax ([bad_box, tree_box] ! 1), ymax ([bad_box, tree_box] ! 1))
     = (500003, 5449995) \<and>
   pixel_box_to_polygon north_up tree_box = box 500001 5449995 500003 5449998 \<and>
   bounds (pixel_box_to_polygon north_up tree_box) = Some (500001, 5449995, 500003, 5449998) \<and>
   polygons_loop north_up [bad_box, tree_box] [] ! 1 = box 500001 5449995 500003 5449998 \<and>
   (\<exists>res. detect_tree_crowns_from_orthomosaic example_lib north_up (Some utm10n)
             (Some [bad_box, tree_box]) = Inr res \<and>
      length (rows (crowns_gdf res)) = 2 \<and>
      geometry (rows (crowns_gdf res) ! 1) = box 500001 5449995 500003 5449998) \<and>
   (\<exists>res. detect_tree_crowns_from_orthomosaic example_lib degree_raster (Some wgs84)
             (Some [square_box]) = Inr res \<and>
      length (rows (crowns_gdf res)) = 1 \<and>
      gdf_crs (crowns_gdf res) = Some \<lparr>epsg_code = Some 32610, kind = Projected\<rparr> \<and>
      geometry (rows (crowns_gdf res) ! 0)
        = box (8768 / 10) (20492 / 10) (8769 / 10) (20493 / 10))"
proof -
  let ?df = "[bad_box, tree_box]"
  have nth1: "?df ! 1 = tree_box"
    by simp
  have h1: "(1::nat) < length ?df"
    by simp
  have h2: "xmin (?df ! 1) < xmax (?df ! 1)" and h3: "ymin (?df ! 1) < ymax (?df ! 1)"
    by (simp_all add: tree_box_def)
  have h4: "affine_apply north_up (xmin (?df ! 1), ymin (?df ! 1)) = (500001, 5449998)"
    by (simp add: north_up_def tree_box_def)
  have h5: "affine_apply north_up (xmax (?df ! 1), ymax (?df ! 1)) = (500003, 5449995)"
    by (simp add: north_up_def tree_box_def)
  have len2: "length ?df = 2"
    by simp
  have ng: "\<not> is_geographic utm10n"
    by (simp add: is_geographic_def utm10n_def)
  have mins: "min 500001 500003 = (500001::real)" "max 500001 500003 = (500003::real)"
    "min 5449998 5449995 = (5449995::real)" "max 5449998 5449995 = (5449998::real)"
    by simp_all
  note inst = pixel_box_to_polygon_rectangle [OF h1 h2 h3 h4 h5, of utm10n example_lib,
      unfolded nth1 len2 mins if_not_P [OF ng]]
  have metres: "pixel_box_to_polygon north_up tree_box = box 500001 5449995 500003 5449998 \<and>
      bounds (pixel_box_to_polygon north_up tree_box) = Some (500001, 5449995, 500003, 5449998) \<and>
      polygons_loop north_up ?df [] ! 1 = box 500001 5449995 500003 5449998 \<and>
      (\<exists>res. detect_tree_crowns_from_orthomosaic example_lib north_up (Some utm10n) (Some ?df) = Inr res \<and>
         length (rows (crowns_gdf res)) = 2 \<and>
         geometry (rows (crowns_gdf res) ! 1) = box 500001 5449995 500003 5449998)"
    using inst by blast
  have g1: "(0::nat) < length [square_box]"
    by simp
  have g2: "xmin ([square_box] ! 0) < xmax ([square_box] ! 0)"
    and g3: "ymin ([square_box] ! 0) < ymax ([square_box] ! 0)"
    by (simp_all add: square_box_def)
  have g4: "affine_apply degree_raster (xmin ([square_box] ! 0), ymin ([square_box] ! 0))
      = (- 1232 / 10, 493 / 10)"
    by (simp add: degree_raster_def square_box_def)
  have g5: "affine_apply degree_raster (xmax ([square_box] ! 0), ymax ([square_box] ! 0))
      = (- 1231 / 10, 492 / 10)"
    by (simp add: degree_raster_def square_box_def)
  have loop: "polygons_loop degree_raster [square_box] []
      = [box (- 1232 / 10) (492 / 10) (- 1231 / 10) (493 / 10)]"
    by (simp add: pixel_box_to_polygon_def xy_def degree_raster_def square_box_def)
  have code: "utm_epsg_of (unary_union_centroid example_lib
      [box (- 1232 / 10) (492 / 10) (- 1231 / 10) (493 / 10)]) = 32610"
    by (simp add: example_lib_def bounds_centre_def box_def utm_epsg_of_def utm_zone_of_def
        py_int_def py_floordiv_def)
  have shifted: "map (transform_point example_lib wgs84 (from_epsg example_lib 32610))
      (box (- 1232 / 10) (492 / 10) (- 1231 / 10) (493 / 10))
      = box (8768 / 10) (20492 / 10) (8769 / 10) (20493 / 10)"
    by (simp add: example_lib_def box_def)
  have geographic: "is_geographic wgs84"
    by (simp add: is_geographic_def wgs84_def)
  have len1: "length [square_box] = 1"
    by simp
  have dmins: "min (- 1232 / 10) (- 1231 / 10) = (- 1232 / 10 :: real)"
    "max (- 1232 / 10) (- 1231 / 10) = (- 1231 / 10 :: real)"
    "min (493 / 10) (492 / 10) = (492 / 10 :: real)"
    "max (493 / 10) (492 / 10) = (493 / 10 :: real)"
    by simp_all
  note dinst = pixel_box_to_polygon_rectangle [OF g1 g2 g3 g4 g5, of wgs84 example_lib,
      unfolded len1 dmins if_P [OF geographic] loop code shifted]
  obtain res where run: "detect_tree_crowns_from_orthomosaic example_lib degree_raster (Some wgs84)
        (Some [square_box]) = Inr res"
    and rlen: "length (rows (crowns_gdf res)) = 1"
    and rgeo: "geometry (rows (crowns_gdf res) ! 0)
        = box (8768 / 10) (20492 / 10) (8769 / 10) (20493 / 10)"
    using dinst by blast
  have code_of_batch: "utm_epsg_of (unary_union_centroid example_lib
      [pixel_box_to_polygon degree_raster square_box]) = 32610"
    using code loop by simp
  have registry: "from_epsg example_lib 32610 = \<lparr>epsg_code = Some 32610, kind = Projected\<rparr>"
    by (simp add: example_lib_def)
  have rcrs: "gdf_crs (crowns_gdf res) = Some \<lparr>epsg_code = Some 32610, kind = Projected\<rparr>"
    using run by (auto simp: detect_frame geographic derive_def code_of_batch registry)
  have degrees: "\<exists>res. detect_tree_crowns_from_orthomosaic example_lib degree_raster (Some wgs84)
             (Some [square_box]) = Inr res \<and>
      length (rows (crowns_gdf res)) = 1 \<and>
      gdf_crs (crowns_gdf res) = Some \<lparr>epsg_code = Some 32610, kind = Projected\<rparr> \<and>
      geometry (rows (crowns_gdf res) ! 0)
        = box (8768 / 10) (20492 / 10) (8769 / 10) (20493 / 10)"
    using run rlen rgeo rcrs by auto
  from h1 h2 h3 h4 h5 metres degrees show ?thesis
    by blast
qed







section \<open>Properties of the normalisation to metric units\<close>

lemma py_int_floordiv: "py_int (py_floordiv a b) = \<lfloor>a / b\<rfloor>"
  by (simp add: py_int_def py_floordiv_def)

lemma utm_zone_of_floor: "utm_zone_of (lon, lat) = \<lfloor>(lon + 180) / 6\<rfloor> + 1"
  by (simp add: utm_zone_of_def py_int_floordiv)

lemma utm_epsg_of_code:
  "utm_epsg_of (lon, lat) =
     (if 0 \<le> lat then 32600 + (\<lfloor>(lon + 180) / 6\<rfloor> + 1) else 32700 + (\<lfloor>(lon + 180) / 6\<rfloor> + 1))"
  by (simp add: utm_epsg_of_def utm_zone_of_floor)

lemma vancouver_centroid:
  "unary_union_centroid example_lib (map geometry (rows (vancouver_crowns c))) = (- 1231 / 10, 492 / 10)"
  by (simp add: example_lib_def vancouver_crowns_def GeoDataFrame_def with_geometry_def
      bounds_centre_def box_def)

text \<open>
  C2.  When the frame's reference system is geographic, the stage takes the centroid
  (lon, lat) of the union of all its geometries, sets zone = floor((lon + 180) / 6) + 1
  and code = 32600 + zone when lat >= 0, 32700 + zone otherwise, and returns the frame
  with every vertex of every polygon transformed into the one system of that code, which
  the result carries.  For the centroid (-123.1, 49.2) the code is 32610.
\<close>

theorem ensure_metric_geographic:
  assumes "gdf_crs crowns = Some c" and "is_geographic c"
    and "unary_union_centroid lib (map geometry (rows crowns)) = (lon, lat)"
  shows "\<exists>zone code.
           zone = \<lfloor>(lon + 180) / 6\<rfloor> + 1 \<and>
           code = (if 0 \<le> lat then 32600 + zone else 32700 + zone) \<and>
           ensure_metric lib crowns =
             Inr \<lparr>rows = map (\<lambda>r. r\<lparr>geometry := map (transform_point lib c (from_epsg lib code)) (geometry r)\<rparr>)
                          (rows crowns),
                  gdf_crs = Some (from_epsg lib code)\<rparr> \<and>
           (lon = - 1231 / 10 \<and> lat = 492 / 10 \<longrightarrow> code = 32610)"
proof -
  let ?zone = "\<lfloor>(lon + 180) / 6\<rfloor> + 1"
  let ?code = "if 0 \<le> lat then 32600 + ?zone else 32700 + ?zone"
  have code: "utm_epsg_of (unary_union_centroid lib (map geometry (rows crowns))) = ?code"
    by (simp only: assms(3) utm_epsg_of_code)
  have run: "ensure_metric lib crowns =
      Inr \<lparr>rows = map (\<lambda>r. r\<lparr>geometry := map (transform_point lib c (from_epsg lib ?code)) (geometry r)\<rparr>)
                   (rows crowns),
           gdf_crs = Some (from_epsg lib ?code)\<rparr>"
    unfolding ensure_metric_def to_crs_def code using assms(1,2) by simp
  have example: "lon = - 1231 / 10 \<and> lat = 492 / 10 \<longrightarrow> ?code = 32610"
    by simp
  from run example show ?thesis by blast
qed

text \<open>
  The theorem on a frame of one rectangle in degrees, centred at (-123.1, 49.2): the
  result is in the system of code 32610, every vertex moved by the stand-in
  transformation.
\<close>

theorem ensure_metric_geographic_witness:
  "gdf_crs (vancouver_crowns (Some wgs84)) = Some wgs84 \<and> is_geographic wgs84 \<and>
   unary_union_centroid example_lib (map geometry (rows (vancouver_crowns (Some wgs84))))
     = (- 1231 / 10, 492 / 10) \<and>
   ensure_metric example_lib (vancouver_crowns (Some wgs84)) =
     Inr \<lparr>rows = [with_geometry tree_box
                    [(877, 20491 / 10), (877, 20493 / 10), (8768 / 10, 20493 / 10),
                     (8768 / 10, 20491 / 10), (877, 20491 / 10)]],
          gdf_crs = Some \<lparr>epsg_code = Some 32610, kind = Projected\<rparr>\<rparr>"
proof -
  have h1: "gdf_crs (vancouver_crowns (Some wgs84)) = Some wgs84"
    by (simp add: vancouver_crowns_def GeoDataFrame_def)
  have h2: "is_geographic wgs84"
    by (simp add: is_geographic_def wgs84_def)
  note h3 = vancouver_centroid [of "Some wgs84"]
  have rows: "rows (vancouver_crowns (Some wgs84))
      = [with_geometry tree_box (box (- 1232 / 10) (491 / 10) (- 1230 / 10) (493 / 10))]"
    by (simp add: vancouver_crowns_def GeoDataFrame_def)
  from h1 h2 h3 ensure_metric_geographic [OF h1 h2 h3] show ?thesis
    by (simp add: rows example_lib_def with_geometry_def box_def)
qed

text \<open>
  C7.  When the frame's reference system is projected (in metres or in any other linear
  unit), the stage returns the frame as it is: same geometries, same reference system,
  and nothing of the libraries is called.
\<close>

theorem ensure_metric_projected_identity:
  assumes "gdf_crs crowns = Some c" and "is_projected c"
  shows "ensure_metric lib crowns = Inr crowns"
  using assms by (simp add: ensure_metric_def is_projected_def is_geographic_def)

theorem ensure_metric_projected_identity_witness:
  "gdf_crs (square_crowns (Some utm10n)) = Some utm10n \<and> is_projected utm10n \<and>
   ensure_metric example_lib (square_crowns (Some utm10n)) = Inr (square_crowns (Some utm10n))"
proof -
  have h1: "gdf_crs (square_crowns (Some utm10n)) = Some utm10n"
    by (simp add: square_crowns_def GeoDataFrame_def)
  have h2: "is_projected utm10n"
    by (simp add: is_projected_def utm10n_def)
  from h1 h2 ensure_metric_projected_identity [OF h1 h2] show ?thesis
    by blast
qed





section \<open>Properties of the derived crown geometry\<close>

lemma ring_cross_sum_box:
  "ring_cross_sum (box minx miny maxx maxy) = 2 * ((maxx - minx) * (maxy - miny))"
  by (simp add: box_def algebra_simps)

lemma area_box: "area (box minx miny maxx maxy) = \<bar>maxx - minx\<bar> * \<bar>maxy - miny\<bar>"
  by (simp add: area_def ring_cross_sum_box abs_mult)

text \<open>
  Bounds on \<open>\<pi>\<close> from Machin's formula and the alternating series of the arc tangent,
  whose partial sums enclose its value.
\<close>

lemma arctan_partial_sums:
  fixes x :: real
  assumes "0 \<le> x" and "x \<le> 1"
  shows "(\<Sum>k<2 * n. (- 1) ^ k * (1 / real (k * 2 + 1) * x ^ (k * 2 + 1))) \<le> arctan x"
    and "arctan x \<le> (\<Sum>k<2 * n + 1. (- 1) ^ k * (1 / real (k * 2 + 1) * x ^ (k * 2 + 1)))"
proof -
  let ?a = "\<lambda>k. 1 / real (k * 2 + 1) * x ^ (k * 2 + 1)"
  have abs1: "\<bar>x\<bar> \<le> 1" using assms by simp
  have lim: "?a \<longlonglongrightarrow> 0"
    using abs1 by (rule zeroseq_arctan_series)
  have pos: "0 \<le> ?a k" for k
    using assms by simp
  have dec: "?a (Suc k) \<le> ?a k" for k
  proof -
    have "x ^ (Suc k * 2 + 1) \<le> x ^ (k * 2 + 1)"
      using assms by (intro power_decreasing) auto
    moreover have "1 / real (Suc k * 2 + 1) \<le> 1 / real (k * 2 + 1)"
      by (simp add: field_simps)
    moreover have "0 \<le> x ^ (Suc k * 2 + 1)" "0 \<le> 1 / real (k * 2 + 1)"
      using assms by simp_all
    ultimately show ?thesis
      by (intro mult_mono) auto
  qed
  have ser: "arctan x = (\<Sum>k. (- 1) ^ k * ?a k)"
    using abs1 by (rule arctan_series)
  show "(\<Sum>k<2 * n. (- 1) ^ k * ?a k) \<le> arctan x"
    unfolding ser using summable_Leibniz'(2) [of ?a, OF lim pos dec] .
  show "arctan x \<le> (\<Sum>k<2 * n + 1. (- 1) ^ k * ?a k)"
    unfolding ser using summable_Leibniz'(4) [of ?a, OF lim pos dec] .
qed

lemma pi_lower: "314159 / 100000 < pi"
proof -
  have a: "(\<Sum>k<2 * 2. (- 1) ^ k * (1 / real (k * 2 + 1) * (1 / 5) ^ (k * 2 + 1))) \<le> arctan (1 / 5 :: real)"
    by (rule arctan_partial_sums(1)) simp_all
  have b: "arctan (1 / 239 :: real) \<le> (\<Sum>k<2 * 0 + 1. (- 1) ^ k * (1 / real (k * 2 + 1) * (1 / 239) ^ (k * 2 + 1)))"
    by (rule arctan_partial_sums(2)) simp_all
  have "pi = 16 * arctan (1 / 5) - 4 * arctan (1 / 239)"
    using machin by simp
  with a b show ?thesis
    by (simp add: eval_nat_numeral)
qed

lemma pi_upper: "pi < 314163 / 100000"
proof -
  have a: "arctan (1 / 5 :: real) \<le> (\<Sum>k<2 * 1 + 1. (- 1) ^ k * (1 / real (k * 2 + 1) * (1 / 5) ^ (k * 2 + 1)))"
    by (rule arctan_partial_sums(2)) simp_all
  have b: "(\<Sum>k<2 * 1. (- 1) ^ k * (1 / real (k * 2 + 1) * (1 / 239) ^ (k * 2 + 1))) \<le> arctan (1 / 239 :: real)"
    by (rule arctan_partial_sums(1)) simp_all
  have "pi = 16 * arctan (1 / 5) - 4 * arctan (1 / 239)"
    using machin by simp
  with a b show ?thesis
    by (simp add: eval_nat_numeral)
qed

lemma equal_area_diameter_100:
  "\<bar>2 * sqrt (100 / pi) - 112838 / 10000\<bar> < 1 / 10000"
proof -
  have lo: "(564185 / 100000)\<^sup>2 < 100 / pi"
    using pi_upper pi_gt_zero by (simp add: field_simps power2_eq_square)
  have hi: "100 / pi < (564195 / 100000)\<^sup>2"
    using pi_lower pi_gt_zero by (simp add: field_simps power2_eq_square)
  have "564185 / 100000 < sqrt (100 / pi)"
    using lo by (rule real_less_rsqrt)
  moreover have "sqrt (100 / pi) < 564195 / 100000"
    using hi by (intro real_less_lsqrt) simp_all
  ultimately show ?thesis by linarith
qed

lemma derive_row_columns:
  "crown_area_m2 (derive_row lib r) = area (geometry r)"
  "crown.crown_diameter_m (derive_row lib r) = 2 * sqrt (area (geometry r) / pi)"
  "geometry (derive_row lib r) = geometry r"
  by (simp_all add: derive_row_def)

lemma detect_rows_derived:
  assumes "detect_tree_crowns_from_orthomosaic lib transform src_crs detections_df = Inr res"
  shows "\<exists>crowns. rows (crowns_gdf res) = map (derive_row lib) crowns"
proof -
  obtain c where c: "src_crs = Some c"
    using assms detect_success_has_crs by blast
  show ?thesis
  proof (cases "detections_df = None \<or> detections_df = Some []")
    case True
    then have "rows (crowns_gdf res) = map (derive_row lib) []"
      using assms unfolding c detect_with_crs by auto
    then show ?thesis by blast
  next
    case False
    then obtain df where df: "detections_df = Some df" "df \<noteq> []"
      by (cases detections_df) auto
    then obtain out where "res = \<lparr>crowns_gdf = derive lib out, source_crs = c\<rparr>"
      using assms unfolding c detect_with_crs by (auto split: sum.splits)
    then have "rows (crowns_gdf res) = map (derive_row lib) (rows out)"
      by (simp add: derive_def)
    then show ?thesis by blast
  qed
qed

text \<open>
  C3.  The diameter column of a crown is 2 * sqrt(A / pi), where A is its area column,
  the planar area of its polygon; this holds for every crown the function returns.  For a
  square of 10 by 10 the area is 100 and the diameter 2 * sqrt(100 / pi), which is within
  0.0001 of 11.2838; for a polygon of area zero the diameter is 0.
\<close>

theorem crown_diameter_from_area:
  "crown_area_m2 (derive_row lib r) = area (geometry r) \<and>
   crown.crown_diameter_m (derive_row lib r) = 2 * sqrt (crown_area_m2 (derive_row lib r) / pi) \<and>
   (detect_tree_crowns_from_orthomosaic lib transform src_crs detections_df = Inr res \<longrightarrow>
      (\<forall>cr \<in> set (rows (crowns_gdf res)).
         crown_area_m2 cr = area (geometry cr) \<and>
         crown.crown_diameter_m cr = 2 * sqrt (crown_area_m2 cr / pi))) \<and>
   (geometry r = box x0 y0 (x0 + 10) (y0 + 10) \<longrightarrow>
      crown_area_m2 (derive_row lib r) = 100 \<and>
      crown.crown_diameter_m (derive_row lib r) = 2 * sqrt (100 / pi) \<and>
      \<bar>crown.crown_diameter_m (derive_row lib r) - 112838 / 10000\<bar> < 1 / 10000) \<and>
   (area (geometry r) = 0 \<longrightarrow> crown.crown_diameter_m (derive_row lib r) = 0)"
proof -
  have general: "crown_area_m2 (derive_row lib r) = area (geometry r) \<and>
      crown.crown_diameter_m (derive_row lib r) = 2 * sqrt (crown_area_m2 (derive_row lib r) / pi)"
    by (simp add: derive_row_columns)
  have returned: "\<forall>cr \<in> set (rows (crowns_gdf res)).
         crown_area_m2 cr = area (geometry cr) \<and>
         crown.crown_diameter_m cr = 2 * sqrt (crown_area_m2 cr / pi)"
    if run: "detect_tree_crowns_from_orthomosaic lib transform src_crs detections_df = Inr res"
  proof -
    obtain crowns where "rows (crowns_gdf res) = map (derive_row lib) crowns"
      using detect_rows_derived [OF run] by blast
    then show ?thesis
      by (auto simp: derive_row_columns)
  qed
  have square: "crown_area_m2 (derive_row lib r) = 100 \<and>
      crown.crown_diameter_m (derive_row lib r) = 2 * sqrt (100 / pi) \<and>
      \<bar>crown.crown_diameter_m (derive_row lib r) - 112838 / 10000\<bar> < 1 / 10000"
    if "geometry r = box x0 y0 (x0 + 10) (y0 + 10)"
  proof -
    have "area (geometry r) = 100"
      by (simp add: that area_box)
    then have "crown_area_m2 (derive_row lib r) = 100"
      and "crown.crown_diameter_m (derive_row lib r) = 2 * sqrt (100 / pi)"
      by (simp_all only: derive_row_columns)
    then show ?thesis
      using equal_area_diameter_100 by (simp only: simp_thms)
  qed
  have degenerate: "crown.crown_diameter_m (derive_row lib r) = 0" if "area (geometry r) = 0"
    by (simp add: derive_row_columns that)
  from general returned square degenerate show ?thesis
    by blast
qed

text \<open>
  The theorem on the square of 100 by 100 pixels of the north-up raster, which is 10 m
  by 10 m on the ground, and on a box of no width.
\<close>

theorem crown_diameter_from_area_witness:
  "geometry (with_geometry square_box (box 500000 5449990 500010 5450000))
     = box 500000 5449990 (500000 + 10) (5449990 + 10) \<and>
   crown_area_m2 (derive_row example_lib (with_geometry square_box (box 500000 5449990 500010 5450000))) = 100 \<and>
   crown.crown_diameter_m (derive_row example_lib (with_geometry square_box (box 500000 5449990 500010 5450000)))
     = 2 * sqrt (100 / pi) \<and>
   \<bar>crown.crown_diameter_m (derive_row example_lib (with_geometry square_box (box 500000 5449990 500010 5450000)))
      - 112838 / 10000\<bar> < 1 / 10000 \<and>
   map geometry (rows (crowns_gdf (projr
     (detect_tree_crowns_from_orthomosaic example_lib north_up (Some utm10n) (Some [square_box])))))
     = [box 500000 5449990 500010 5450000] \<and>
   map crown_area_m2 (rows (crowns_gdf (projr
     (detect_tree_crowns_from_orthomosaic example_lib north_up (Some utm10n) (Some [square_box])))))
     = [100] \<and>
   area (geometry (with_geometry tree_box (box 7 7 7 9))) = 0 \<and>
   crown.crown_diameter_m (derive_row example_lib (with_geometry tree_box (box 7 7 7 9))) = 0"
proof -
  let ?r = "with_geometry square_box (box 500000 5449990 500010 5450000)"
  let ?flat = "with_geometry tree_box (box 7 7 7 9)"
  have z: "area (geometry ?flat) = 0"
    by (simp add: with_geometry_def area_box)
  from crown_diameter_from_area [of example_lib ?flat] z
  have zero: "crown.crown_diameter_m (derive_row example_lib ?flat) = 0"
    by blast
  have g: "geometry ?r = box 500000 5449990 (500000 + 10) (5449990 + 10)"
    by (simp add: with_geometry_def)
  have run: "detect_tree_crowns_from_orthomosaic example_lib north_up (Some utm10n) (Some [square_box])
      = Inr \<lparr>crowns_gdf = \<lparr>rows = [derive_row example_lib ?r], gdf_crs = Some utm10n\<rparr>, source_crs = utm10n\<rparr>"
    by (simp add: detect_tree_crowns_from_orthomosaic_def from_user_input_def GeoDataFrame_def ensure_metric_def
        is_geographic_def utm10n_def derive_def pixel_box_to_polygon_def xy_def north_up_def
        square_box_def)
  from crown_diameter_from_area [of example_lib ?r north_up "Some utm10n" "Some [square_box]"
      "\<lparr>crowns_gdf = \<lparr>rows = [derive_row example_lib ?r], gdf_crs = Some utm10n\<rparr>, source_crs = utm10n\<rparr>"
      500000 5449990]
  have sq: "crown_area_m2 (derive_row example_lib ?r) = 100 \<and>
      crown.crown_diameter_m (derive_row example_lib ?r) = 2 * sqrt (100 / pi) \<and>
      \<bar>crown.crown_diameter_m (derive_row example_lib ?r) - 112838 / 10000\<bar> < 1 / 10000"
    using g by blast
  have geo: "map geometry (rows (crowns_gdf (projr
      (detect_tree_crowns_from_orthomosaic example_lib north_up (Some utm10n) (Some [square_box])))))
      = [box 500000 5449990 500010 5450000]"
    by (simp add: run derive_row_columns with_geometry_def)
  have ar: "map crown_area_m2 (rows (crowns_gdf (projr
      (detect_tree_crowns_from_orthomosaic example_lib north_up (Some utm10n) (Some [square_box])))))
      = [100]"
    using sq by (simp add: run)
  from g sq geo ar z zero show ?thesis
    by blast
qed


end
